theory Spec2Isabelle
  imports Complex_Main
begin

section \<open>JavaScript numbers\<close>

text \<open>
  The seek bar computes with JavaScript numbers. They are modelled with their special
  values written out: not-a-number, the two infinities and the negative zero; \<open>Fin 0\<close>
  is the positive zero. Finite arithmetic is exact arithmetic on the reals: rounding,
  overflow and underflow of the 64-bit format are not modelled. No operation raises:
  JavaScript arithmetic and comparison on numbers always return a value.
\<close>

datatype jsnum = NaN | PInf | NInf | NegZero | Fin real

fun is_zero :: "jsnum \<Rightarrow> bool" where
  "is_zero NegZero = True"
| "is_zero (Fin r) = (r = 0)"
| "is_zero _ = False"

fun is_inf :: "jsnum \<Rightarrow> bool" where
  "is_inf PInf = True"
| "is_inf NInf = True"
| "is_inf _ = False"

text \<open>The sign bit (of no meaning for \<open>NaN\<close>).\<close>

fun sign_neg :: "jsnum \<Rightarrow> bool" where
  "sign_neg NInf = True"
| "sign_neg NegZero = True"
| "sign_neg (Fin r) = (r < 0)"
| "sign_neg _ = False"

text \<open>The real value of a finite number.\<close>

fun rv :: "jsnum \<Rightarrow> real" where
  "rv (Fin r) = r"
| "rv _ = 0"

definition signed_zero :: "bool \<Rightarrow> jsnum" where
  "signed_zero s = (if s then NegZero else Fin 0)"

definition signed_inf :: "bool \<Rightarrow> jsnum" where
  "signed_inf s = (if s then NInf else PInf)"

text \<open>\<open>x * y\<close>\<close>

definition jmul :: "jsnum \<Rightarrow> jsnum \<Rightarrow> jsnum" where
  "jmul x y =
     (if x = NaN \<or> y = NaN then NaN
      else if (is_inf x \<and> is_zero y) \<or> (is_zero x \<and> is_inf y) then NaN
      else if is_inf x \<or> is_inf y then signed_inf (sign_neg x \<noteq> sign_neg y)
      else if is_zero x \<or> is_zero y then signed_zero (sign_neg x \<noteq> sign_neg y)
      else Fin (rv x * rv y))"

text \<open>\<open>x / y\<close>: division by a zero gives an infinity or \<open>NaN\<close>, never an error.\<close>

definition jdiv :: "jsnum \<Rightarrow> jsnum \<Rightarrow> jsnum" where
  "jdiv x y =
     (if x = NaN \<or> y = NaN then NaN
      else if (is_inf x \<and> is_inf y) \<or> (is_zero x \<and> is_zero y) then NaN
      else if is_inf x \<or> is_zero y then signed_inf (sign_neg x \<noteq> sign_neg y)
      else if is_zero x \<or> is_inf y then signed_zero (sign_neg x \<noteq> sign_neg y)
      else Fin (rv x / rv y))"

text \<open>\<open>-x\<close>\<close>

fun jneg :: "jsnum \<Rightarrow> jsnum" where
  "jneg NaN = NaN"
| "jneg PInf = NInf"
| "jneg NInf = PInf"
| "jneg NegZero = Fin 0"
| "jneg (Fin r) = (if r = 0 then NegZero else Fin (- r))"

text \<open>\<open>x + y\<close>: a zero sum is the positive zero unless both operands are negative zeros.\<close>

definition jadd :: "jsnum \<Rightarrow> jsnum \<Rightarrow> jsnum" where
  "jadd x y =
     (if x = NaN \<or> y = NaN then NaN
      else if is_inf x then (if is_inf y \<and> x \<noteq> y then NaN else x)
      else if is_inf y then y
      else if rv x + rv y \<noteq> 0 then Fin (rv x + rv y)
      else signed_zero (x = NegZero \<and> y = NegZero))"

text \<open>\<open>x - y\<close>\<close>

definition jsub :: "jsnum \<Rightarrow> jsnum \<Rightarrow> jsnum" where
  "jsub x y = jadd x (jneg y)"

text \<open>\<open>x < y\<close>: false as soon as one side is \<open>NaN\<close>; the two zeros compare equal.\<close>

definition jlt :: "jsnum \<Rightarrow> jsnum \<Rightarrow> bool" where
  "jlt x y =
     (x \<noteq> NaN \<and> y \<noteq> NaN \<and>
      (if x = NInf then y \<noteq> NInf
       else if y = PInf then x \<noteq> PInf
       else if x = PInf \<or> y = NInf then False
       else rv x < rv y))"

text \<open>\<open>x === y\<close> on numbers: \<open>NaN\<close> equals nothing, the two zeros are equal.\<close>

definition jeq :: "jsnum \<Rightarrow> jsnum \<Rightarrow> bool" where
  "jeq x y = (x \<noteq> NaN \<and> y \<noteq> NaN \<and> (x = y \<or> (is_zero x \<and> is_zero y)))"

text \<open>\<open>x >= y\<close> and \<open>x <= y\<close>\<close>

definition jge :: "jsnum \<Rightarrow> jsnum \<Rightarrow> bool" where
  "jge x y = (jlt y x \<or> jeq x y)"

definition jle :: "jsnum \<Rightarrow> jsnum \<Rightarrow> bool" where
  "jle x y = jge y x"

section \<open>The player\<close>

text \<open>
  The calls the seek bar makes on its player, in the order they are issued.
\<close>

datatype player_call = SetScrubbing bool | Pause | Play | SeekTo jsnum

record cache =
  c_currentTime :: jsnum

text \<open>
  Modelled from the spec: the \<open>Player\<close> class (player.js), which is the spec's
  ClockSource, is not part of the sources. Its playback state is the live current time,
  the cached current-time snapshot, the duration, the scrubbing flag and the paused flag.
  \<open>p_calls\<close> records every mutator call received, oldest first.
\<close>

record player =
  p_currentTime :: jsnum
  p_cache :: cache
  p_duration :: jsnum
  p_scrubbing :: bool
  p_paused :: bool
  p_calls :: "player_call list"

text \<open>Modelled from the spec: \<open>player.currentTime()\<close>, the clock's live time.\<close>

definition currentTime_get :: "player \<Rightarrow> jsnum" where
  "currentTime_get p = p_currentTime p"

text \<open>Modelled from the spec: \<open>player.getCache()\<close>, holding the cached current time.\<close>

definition getCache :: "player \<Rightarrow> cache" where
  "getCache p = p_cache p"

text \<open>Modelled from the spec: \<open>player.duration()\<close>.\<close>

definition duration :: "player \<Rightarrow> jsnum" where
  "duration p = p_duration p"

text \<open>Modelled from the spec: \<open>player.scrubbing()\<close> without argument, \<open>isScrubbing()\<close>.\<close>

definition scrubbing_get :: "player \<Rightarrow> bool" where
  "scrubbing_get p = p_scrubbing p"

text \<open>Modelled from the spec: \<open>player.scrubbing(b)\<close>, \<open>setScrubbing(bool)\<close>.\<close>

definition scrubbing_set :: "bool \<Rightarrow> player \<Rightarrow> player" where
  "scrubbing_set b p = p\<lparr>p_scrubbing := b, p_calls := p_calls p @ [SetScrubbing b]\<rparr>"

text \<open>Modelled from the spec: \<open>player.paused()\<close>, \<open>isPaused()\<close>.\<close>

definition paused :: "player \<Rightarrow> bool" where
  "paused p = p_paused p"

text \<open>Modelled from the spec: \<open>player.pause()\<close>; the player is paused afterwards.\<close>

definition pause :: "player \<Rightarrow> player" where
  "pause p = p\<lparr>p_paused := True, p_calls := p_calls p @ [Pause]\<rparr>"

text \<open>Modelled from the spec: \<open>player.play()\<close>; the player is playing afterwards.\<close>

definition play :: "player \<Rightarrow> player" where
  "play p = p\<lparr>p_paused := False, p_calls := p_calls p @ [Play]\<rparr>"

text \<open>
  Modelled from the spec: \<open>clamp(x, lo, hi)\<close>, which the spec uses for the percent and
  for the clock's seek targets and no source defines: \<open>lo\<close> below \<open>lo\<close>, \<open>hi\<close> above
  \<open>hi\<close>, \<open>x\<close> itself otherwise.
\<close>

definition clamp :: "jsnum \<Rightarrow> jsnum \<Rightarrow> jsnum \<Rightarrow> jsnum" where
  "clamp x lo hi = (if jlt x lo then lo else if jlt hi x then hi else x)"

text \<open>
  Modelled from the spec: \<open>player.currentTime(t)\<close> with an argument, \<open>seekTo(t)\<close>. The
  spec makes the validation of the target the clock's: a target in range is applied
  exactly, one out of range is clamped into \<open>[0, duration]\<close>. The flags are untouched.
\<close>

definition currentTime_set :: "jsnum \<Rightarrow> player \<Rightarrow> player" where
  "currentTime_set t p =
     p\<lparr>p_currentTime := clamp t (Fin 0) (p_duration p), p_calls := p_calls p @ [SeekTo t]\<rparr>"

section \<open>The seek bar\<close>

text \<open>
  An attribute value is kept as the call that renders it: \<open>toFixed(2)\<close> of a number, or
  \<open>formatTime(time, duration)\<close>; the rendering to text is outside the sources.
\<close>

datatype attr_value = ToFixed2 jsnum | FormatTime jsnum jsnum

text \<open>The pointer event, with the ratio along the track that its position stands for.\<close>

record event =
  ratio :: jsnum

text \<open>
  Modelled from the spec: \<open>Slider.calculateDistance\<close> (slider.js) is not part of the
  sources; the spec's GestureTrack maps the event to its ratio along the track.
\<close>

definition calculateDistance :: "event \<Rightarrow> jsnum" where
  "calculateDistance e = ratio e"

text \<open>
  The seek bar: its player (\<open>this.player_\<close> in the source), the field
  \<open>videoWasPlaying\<close> (\<open>None\<close> while it is still undefined, that is before the first
  mouse down), the two attributes \<open>update\<close> sets on the element and the percent last
  handed to the play progress bar.
\<close>

record seekbar =
  sb_player :: player
  videoWasPlaying :: "bool option"
  aria_valuenow :: "attr_value option"
  aria_valuetext :: "attr_value option"
  bar_percent :: "jsnum option"

text \<open>The truth value of a field that may be undefined.\<close>

fun truthy :: "bool option \<Rightarrow> bool" where
  "truthy (Some b) = b"
| "truthy None = False"

definition STEP_SECONDS :: jsnum where
  "STEP_SECONDS = Fin 5"

definition getPercent :: "seekbar \<Rightarrow> jsnum" where
  "getPercent this =
     (let time = (if scrubbing_get (sb_player this)
                  then c_currentTime (getCache (sb_player this))
                  else currentTime_get (sb_player this));
          percent = jdiv time (duration (sb_player this))
      in if jge percent (Fin 1) then Fin 1 else percent)"

text \<open>
  Modelled from the spec: \<open>Slider.update\<close> (slider.js), the \<open>super.update()\<close> of
  \<open>update\<close>, is not part of the sources. It obtains the percent from \<open>getPercent\<close>;
  with an unknown duration that result is undefined and is treated as 0 for display.
\<close>

definition Slider_update :: "seekbar \<Rightarrow> jsnum" where
  "Slider_update this =
     (let progress = getPercent this
      in if jge progress (Fin 0) \<and> jle progress (Fin 1) then progress else Fin 0)"

text \<open>
  \<open>update\<close> returns the percent and leaves the two attributes and the bar's percent
  in the seek bar. The bounding rectangle handed to the bar is geometry and is left out.
\<close>

definition update :: "seekbar \<Rightarrow> jsnum \<times> seekbar" where
  "update this =
     (let percent = Slider_update this;
          duration' = duration (sb_player this);
          time = (if scrubbing_get (sb_player this)
                  then c_currentTime (getCache (sb_player this))
                  else currentTime_get (sb_player this))
      in (percent,
          this\<lparr>aria_valuenow := Some (ToFixed2 (jmul percent (Fin 100))),
               aria_valuetext := Some (FormatTime time duration'),
               bar_percent := Some percent\<rparr>))"

text \<open>
  Modelled from the spec: \<open>Slider.handleMouseDown\<close> and \<open>Slider.handleMouseUp\<close>
  (slider.js), the \<open>super\<close> calls of the two handlers, are not part of the sources.
  The spec keeps the generic slider outside the core and gives it no effect on the
  playback state.
\<close>

definition Slider_handleMouseDown :: "event \<Rightarrow> seekbar \<Rightarrow> seekbar" where
  "Slider_handleMouseDown e this = this"

definition Slider_handleMouseUp :: "event \<Rightarrow> seekbar \<Rightarrow> seekbar" where
  "Slider_handleMouseUp e this = this"

definition handleMouseDown :: "event \<Rightarrow> seekbar \<Rightarrow> seekbar" where
  "handleMouseDown e this =
     (let p1 = scrubbing_set True (sb_player this);
          was = \<not> paused p1;
          p2 = pause p1
      in Slider_handleMouseDown e (this\<lparr>sb_player := p2, videoWasPlaying := Some was\<rparr>))"

definition handleMouseMove :: "event \<Rightarrow> seekbar \<Rightarrow> seekbar" where
  "handleMouseMove e this =
     (let newTime = jmul (calculateDistance e) (duration (sb_player this));
          newTime = (if jeq newTime (duration (sb_player this))
                     then jsub newTime (Fin 0.1) else newTime)
      in this\<lparr>sb_player := currentTime_set newTime (sb_player this)\<rparr>)"

definition handleMouseUp :: "event \<Rightarrow> seekbar \<Rightarrow> seekbar" where
  "handleMouseUp e this =
     (let this1 = Slider_handleMouseUp e this;
          p1 = scrubbing_set False (sb_player this1)
      in if truthy (videoWasPlaying this1)
         then this1\<lparr>sb_player := play p1\<rparr>
         else this1\<lparr>sb_player := p1\<rparr>)"

definition stepForward :: "seekbar \<Rightarrow> seekbar" where
  "stepForward this =
     this\<lparr>sb_player :=
       currentTime_set (jadd (currentTime_get (sb_player this)) STEP_SECONDS) (sb_player this)\<rparr>"

definition stepBack :: "seekbar \<Rightarrow> seekbar" where
  "stepBack this =
     this\<lparr>sb_player :=
       currentTime_set (jsub (currentTime_get (sb_player this)) STEP_SECONDS) (sb_player this)\<rparr>"


text \<open>The number of \<open>scrubbing(false)\<close> calls the player has received.\<close>

definition unscrub_calls :: "seekbar \<Rightarrow> nat" where
  "unscrub_calls this =
     length (filter (\<lambda>c. c = SetScrubbing False) (p_calls (sb_player this)))"

text \<open>
  The constructor: a seek bar attached to the player, with \<open>videoWasPlaying\<close> still
  undefined and nothing rendered yet.
\<close>

definition SeekBar_new :: "player \<Rightarrow> seekbar" where
  "SeekBar_new p =
     \<lparr>sb_player = p, videoWasPlaying = None, aria_valuenow = None,
      aria_valuetext = None, bar_percent = None\<rparr>"

text \<open>
  A player with the given live time, cached time, duration, scrubbing flag and paused
  flag that has received no call yet.
\<close>

definition player_state :: "jsnum \<Rightarrow> jsnum \<Rightarrow> jsnum \<Rightarrow> bool \<Rightarrow> bool \<Rightarrow> player" where
  "player_state t c d s pa =
     \<lparr>p_currentTime = t, p_cache = \<lparr>c_currentTime = c\<rparr>, p_duration = d,
      p_scrubbing = s, p_paused = pa, p_calls = []\<rparr>"

subsection \<open>Sequences of operations\<close>

text \<open>
  The entry points of the seek bar, and a run of them in the order the event loop
  dispatches them. \<open>getPercent\<close> only reads; \<open>update\<close> changes the element's attributes
  and the bar.
\<close>

datatype core_op =
  MouseDown event | MouseMove event | MouseUp event
  | Update | GetPercent | StepForward | StepBack

fun apply_op :: "core_op \<Rightarrow> seekbar \<Rightarrow> seekbar" where
  "apply_op (MouseDown e) this = handleMouseDown e this"
| "apply_op (MouseMove e) this = handleMouseMove e this"
| "apply_op (MouseUp e) this = handleMouseUp e this"
| "apply_op Update this = snd (update this)"
| "apply_op GetPercent this = this"
| "apply_op StepForward this = stepForward this"
| "apply_op StepBack this = stepBack this"

fun run :: "core_op list \<Rightarrow> seekbar \<Rightarrow> seekbar" where
  "run [] this = this"
| "run (x # xs) this = run xs (apply_op x this)"

fun is_mouse_up :: "core_op \<Rightarrow> bool" where
  "is_mouse_up (MouseUp e) = True"
| "is_mouse_up _ = False"

section \<open>The update on the player's events\<close>

text \<open>The two events of the player that the seek bar listens to.\<close>

datatype player_event = Timeupdate | Ended

text \<open>
  \<open>SeekBar.prototype.playerEvent\<close>: the event of the player on which the slider calls
  \<open>update\<close>.
\<close>

definition playerEvent :: player_event where
  "playerEvent = Timeupdate"











text \<open>
  The notifications of a list that are the \<open>playerEvent\<close>, each with its time and its
  player state.
\<close>

definition immediate :: "(nat \<times> player_event \<times> player) list \<Rightarrow> (nat \<times> player) list" where
  "immediate ns =
     map (\<lambda>(t, ev, p). (t, p)) (filter (\<lambda>(t, ev, p). ev = playerEvent) ns)"

section \<open>Facts about the numbers\<close>

lemma jlt_Fin [simp]: "jlt (Fin a) (Fin b) = (a < b)"
  by (simp add: jlt_def)

lemma jeq_Fin [simp]: "jeq (Fin a) (Fin b) = (a = b)"
  by (auto simp: jeq_def)

lemma jge_Fin [simp]: "jge (Fin a) (Fin b) = (b \<le> a)"
  by (auto simp: jge_def)

lemma jle_Fin [simp]: "jle (Fin a) (Fin b) = (a \<le> b)"
  by (simp add: jle_def)

lemma jdiv_NaN [simp]: "jdiv x NaN = NaN" "jdiv NaN y = NaN"
  by (simp_all add: jdiv_def)

lemma not_jge_NaN [simp]: "\<not> jge NaN y"
  by (simp add: jge_def jlt_def jeq_def)

lemma jge_PInf_1 [simp]: "jge PInf (Fin 1)"
  by (simp add: jge_def jlt_def)

lemma jdiv_Fin: "r \<noteq> 0 \<Longrightarrow> s \<noteq> 0 \<Longrightarrow> jdiv (Fin r) (Fin s) = Fin (r / s)"
  by (simp add: jdiv_def)

lemma jdiv_pos_zero: "jlt (Fin 0) t \<Longrightarrow> jdiv t (Fin 0) = PInf"
  by (cases t) (simp_all add: jdiv_def jlt_def signed_inf_def)

lemma jdiv_pos_negzero: "jlt (Fin 0) t \<Longrightarrow> jdiv t NegZero = NInf"
  by (cases t) (simp_all add: jdiv_def jlt_def signed_inf_def)

lemma not_jge_NInf_1 [simp]: "\<not> jge NInf (Fin 1)"
  by (simp add: jge_def jlt_def jeq_def)

lemma jdiv_zero_zero: "is_zero t \<Longrightarrow> is_zero d \<Longrightarrow> jdiv t d = NaN"
  by (cases t; cases d) (simp_all add: jdiv_def)

lemma jdiv_zero_Fin:
  "is_zero t \<Longrightarrow> s \<noteq> 0 \<Longrightarrow> jdiv t (Fin s) = signed_zero (sign_neg t \<noteq> (s < 0))"
  by (cases t) (simp_all add: jdiv_def)

lemma jdiv_fin_Inf:
  "t \<noteq> NaN \<Longrightarrow> \<not> is_inf t \<Longrightarrow> is_inf d \<Longrightarrow> jdiv t d = signed_zero (sign_neg t \<noteq> sign_neg d)"
  by (cases t; cases d) (simp_all add: jdiv_def)

lemma zero_cmp [simp]:
  "jge (signed_zero b) (Fin 0)" "jle (signed_zero b) (Fin 0)"
  "\<not> jge (signed_zero b) (Fin 1)" "signed_zero b \<noteq> NaN"
  by (simp_all add: signed_zero_def jge_def jle_def jlt_def jeq_def)

lemma nonneg_finite_cases:
  assumes "jge t (Fin 0)" "t \<noteq> PInf"
  obtains "is_zero t" | r where "t = Fin r" "0 < r"
  using assms by (cases t) (auto simp: jge_def jlt_def jeq_def)

lemma neg_cases:
  assumes "jlt d (Fin 0)"
  obtains "d = NInf" | s where "d = Fin s" "s < 0"
  using assms by (cases d) (auto simp: jlt_def)

lemma pos_cases:
  assumes "jlt (Fin 0) d"
  obtains "d = PInf" | s where "d = Fin s" "0 < s"
  using assms by (cases d) (auto simp: jlt_def)

lemma nonneg_finite_not_special:
  assumes "jge t (Fin 0)" "t \<noteq> PInf"
  shows "t \<noteq> NaN \<and> \<not> is_inf t"
  using assms by (cases t) (simp_all add: jge_def jlt_def jeq_def)

text \<open>A time that is not negative, over a negative duration, is never positive.\<close>

lemma jdiv_neg_le0:
  assumes "jlt d (Fin 0)" "jge t (Fin 0)" "t \<noteq> PInf"
  shows "jle (jdiv t d) (Fin 0) \<and> \<not> jge (jdiv t d) (Fin 1)"
proof -
  note tn = nonneg_finite_not_special [OF assms(2,3)]
  from assms(1) show ?thesis
  proof (cases rule: neg_cases)
    case 1
    then show ?thesis using tn by (simp add: jdiv_fin_Inf)
  next
    case (2 s)
    from assms(2,3) show ?thesis
    proof (cases rule: nonneg_finite_cases)
      case 1
      then show ?thesis using 2 by (simp add: jdiv_zero_Fin)
    next
      case (2 r)
      with \<open>s < 0\<close> have "r / s < 0" by (simp add: divide_pos_neg)
      then show ?thesis using 2 \<open>d = Fin s\<close> \<open>s < 0\<close> by (simp add: jdiv_Fin)
    qed
  qed
qed

text \<open>A finite time that is not negative, over a positive duration, is not negative.\<close>

lemma jdiv_pos_range:
  assumes "jge t (Fin 0)" "t \<noteq> PInf" "jlt (Fin 0) d"
  shows "jge (jdiv t d) (Fin 0)"
proof -
  note tn = nonneg_finite_not_special [OF assms(1,2)]
  from assms(3) show ?thesis
  proof (cases rule: pos_cases)
    case 1
    then show ?thesis using tn by (simp add: jdiv_fin_Inf)
  next
    case (2 s)
    from assms(1,2) show ?thesis
    proof (cases rule: nonneg_finite_cases)
      case 1
      then show ?thesis using 2 by (simp add: jdiv_zero_Fin)
    next
      case (2 r)
      with \<open>0 < s\<close> have "0 < r / s" by simp
      then show ?thesis using 2 \<open>d = Fin s\<close> \<open>0 < s\<close> by (simp add: jdiv_Fin)
    qed
  qed
qed

text \<open>On a quotient that is not negative, the upper bound alone is the clamp.\<close>

lemma cap_is_clamp:
  assumes "jge q (Fin 0)"
  shows "(if jge q (Fin 1) then Fin 1 else q) = clamp q (Fin 0) (Fin 1)"
  using assms by (cases q) (auto simp: clamp_def jge_def jlt_def jeq_def)

lemma cap_in_range:
  assumes "jge q (Fin 0)"
  shows "jle (Fin 0) (if jge q (Fin 1) then Fin 1 else q)
       \<and> jle (if jge q (Fin 1) then Fin 1 else q) (Fin 1)"
  using assms by (cases q) (auto simp: jle_def jge_def jlt_def jeq_def)

lemma ratio_cases:
  assumes "jle (Fin 0) r" "jle r (Fin 1)"
  obtains "r = NegZero" | x where "r = Fin x" "0 \<le> x" "x \<le> 1"
  using assms by (cases r) (auto simp: jle_def jge_def jlt_def jeq_def)

lemma jmul_ratio_zero:
  assumes "jle (Fin 0) r" "jle r (Fin 1)" "is_zero d"
  shows "is_zero (jmul r d)"
  using assms(1,2)
proof (cases rule: ratio_cases)
  case 1
  then show ?thesis using assms(3) by (cases d) (simp_all add: jmul_def signed_zero_def)
next
  case (2 x)
  then show ?thesis using assms(3) by (cases d) (simp_all add: jmul_def signed_zero_def)
qed

lemma jeq_zeros: "is_zero x \<Longrightarrow> is_zero y \<Longrightarrow> jeq x y"
  by (cases x; cases y) (simp_all add: jeq_def)

lemma jsub_zero_tenth: "is_zero x \<Longrightarrow> jsub x (Fin 0.1) = Fin (- 0.1)"
  by (cases x) (simp_all add: jsub_def jadd_def)

section \<open>The percent\<close>

text \<open>\<open>getPercent\<close> is the quotient of the display time by the duration, cut at 1.\<close>

lemma getPercent_cap:
  "getPercent this =
     (if jge (jdiv (if scrubbing_get (sb_player this)
                    then c_currentTime (getCache (sb_player this))
                    else currentTime_get (sb_player this)) (duration (sb_player this))) (Fin 1)
      then Fin 1
      else jdiv (if scrubbing_get (sb_player this)
                 then c_currentTime (getCache (sb_player this))
                 else currentTime_get (sb_player this)) (duration (sb_player this)))"
  by (simp add: getPercent_def Let_def)

lemmas example_defs =
  SeekBar_new_def player_state_def scrubbing_get_def getCache_def currentTime_get_def
  duration_def

text \<open>
  C1, as the spec states it: for a duration that is 0, negative or not a number,
  \<open>getPercent\<close> returns 0. It does not: with the duration 0 and the time 5 the quotient
  is infinite and the result is 1; with a duration that is not a number so is the result;
  with the duration -10 and the time 5 the result is -1/2.
\<close>

theorem getPercent_unknown_duration_counterexample:
  "is_zero (duration (sb_player (SeekBar_new (player_state (Fin 5) (Fin 5) (Fin 0) False False))))
   \<and> getPercent (SeekBar_new (player_state (Fin 5) (Fin 5) (Fin 0) False False)) = Fin 1
   \<and> getPercent (SeekBar_new (player_state (Fin 5) (Fin 5) NaN False False)) = NaN
   \<and> jlt (duration (sb_player (SeekBar_new (player_state (Fin 5) (Fin 5) (Fin (- 10)) False False)))) (Fin 0)
   \<and> getPercent (SeekBar_new (player_state (Fin 5) (Fin 5) (Fin (- 10)) False False)) = Fin (- 1 / 2)"
  by (simp add: getPercent_cap example_defs jdiv_def signed_inf_def)

text \<open>
  C1, amended: for a duration that is 0, negative or not a number, and every display
  time, \<open>getPercent\<close> raises nothing (it is a total function of the state: the source
  only divides and compares) and returns the quotient of the display time by the
  duration, cut at 1 from above and not otherwise changed. That is not a number when the
  duration is not a number or when time and duration are both 0; for a positive time it
  is 1 when the duration is the positive zero and the negative infinity when it is the
  negative zero; and for a negative duration and a finite time that is not negative it
  is the quotient itself, which is at most 0. The result is not forced to 0.
\<close>

theorem getPercent_unknown_duration:
  assumes "time = (if scrubbing_get (sb_player this)
                   then c_currentTime (getCache (sb_player this))
                   else currentTime_get (sb_player this))"
      and "d = duration (sb_player this)"
  shows "getPercent this = (if jge (jdiv time d) (Fin 1) then Fin 1 else jdiv time d)
       \<and> (d = NaN \<longrightarrow> getPercent this = NaN)
       \<and> (d = Fin 0 \<and> jlt (Fin 0) time \<longrightarrow> getPercent this = Fin 1)
       \<and> (d = NegZero \<and> jlt (Fin 0) time \<longrightarrow> getPercent this = NInf)
       \<and> (is_zero d \<and> is_zero time \<longrightarrow> getPercent this = NaN)
       \<and> (jlt d (Fin 0) \<and> jge time (Fin 0) \<and> time \<noteq> PInf \<longrightarrow>
            getPercent this = jdiv time d \<and> jle (getPercent this) (Fin 0))"
proof -
  have g: "getPercent this = (if jge (jdiv time d) (Fin 1) then Fin 1 else jdiv time d)"
    unfolding assms by (rule getPercent_cap)
  have a: "d = NaN \<longrightarrow> getPercent this = NaN"
    by (simp add: g)
  have b: "d = Fin 0 \<and> jlt (Fin 0) time \<longrightarrow> getPercent this = Fin 1"
    by (simp add: g jdiv_pos_zero)
  have b': "d = NegZero \<and> jlt (Fin 0) time \<longrightarrow> getPercent this = NInf"
    by (simp add: g jdiv_pos_negzero)
  have c: "is_zero d \<and> is_zero time \<longrightarrow> getPercent this = NaN"
    by (simp add: g jdiv_zero_zero)
  have e: "jlt d (Fin 0) \<and> jge time (Fin 0) \<and> time \<noteq> PInf \<longrightarrow>
             getPercent this = jdiv time d \<and> jle (getPercent this) (Fin 0)"
    using jdiv_neg_le0 [of d time] by (simp add: g)
  from g a b b' c e show ?thesis by blast
qed

theorem getPercent_unknown_duration_witness:
  "getPercent (SeekBar_new (player_state (Fin 5) (Fin 7) NaN False False)) = NaN
   \<and> jlt (Fin 0) (Fin 5)
   \<and> getPercent (SeekBar_new (player_state (Fin 5) (Fin 7) (Fin 0) False False)) = Fin 1
   \<and> getPercent (SeekBar_new (player_state (Fin 5) (Fin 7) NegZero False False)) = NInf
   \<and> is_zero NegZero \<and> is_zero (Fin 0)
   \<and> getPercent (SeekBar_new (player_state (Fin 5) (Fin 0) NegZero True False)) = NaN
   \<and> jlt (Fin (- 10)) (Fin 0) \<and> jge (Fin 5) (Fin 0)
   \<and> getPercent (SeekBar_new (player_state (Fin 5) (Fin 7) (Fin (- 10)) False False)) = Fin (- 1 / 2)
   \<and> jle (getPercent (SeekBar_new (player_state (Fin 5) (Fin 7) (Fin (- 10)) False False))) (Fin 0)
   \<and> getPercent (SeekBar_new (player_state (Fin (- 20)) (Fin 7) (Fin (- 10)) False False)) = Fin 1"
  using
    getPercent_unknown_duration [OF refl refl,
      of "SeekBar_new (player_state (Fin 5) (Fin 7) NaN False False)"]
    getPercent_unknown_duration [OF refl refl,
      of "SeekBar_new (player_state (Fin 5) (Fin 7) (Fin 0) False False)"]
    getPercent_unknown_duration [OF refl refl,
      of "SeekBar_new (player_state (Fin 5) (Fin 7) NegZero False False)"]
    getPercent_unknown_duration [OF refl refl,
      of "SeekBar_new (player_state (Fin 5) (Fin 0) NegZero True False)"]
    getPercent_unknown_duration [OF refl refl,
      of "SeekBar_new (player_state (Fin 5) (Fin 7) (Fin (- 10)) False False)"]
    getPercent_unknown_duration [OF refl refl,
      of "SeekBar_new (player_state (Fin (- 20)) (Fin 7) (Fin (- 10)) False False)"]
  by (simp add: example_defs jdiv_def signed_inf_def)

text \<open>
  C3: for every display time \<open>t\<close> of the playback state, which is finite and not
  negative, and every duration \<open>d > 0\<close>, \<open>getPercent\<close> returns \<open>clamp(t/d, 0, 1)\<close>;
  the result lies in the closed interval \<open>[0, 1]\<close>.
\<close>

theorem getPercent_clamp:
  assumes "time = (if scrubbing_get (sb_player this)
                   then c_currentTime (getCache (sb_player this))
                   else currentTime_get (sb_player this))"
      and "d = duration (sb_player this)"
      and "jge time (Fin 0)" "time \<noteq> PInf" "jlt (Fin 0) d"
  shows "getPercent this = clamp (jdiv time d) (Fin 0) (Fin 1)
       \<and> jle (Fin 0) (getPercent this) \<and> jle (getPercent this) (Fin 1)"
proof -
  have g: "getPercent this = (if jge (jdiv time d) (Fin 1) then Fin 1 else jdiv time d)"
    unfolding assms(1,2) by (rule getPercent_cap)
  have q: "jge (jdiv time d) (Fin 0)"
    using assms(3-5) by (rule jdiv_pos_range)
  show ?thesis
    using cap_is_clamp [OF q] cap_in_range [OF q] g by simp
qed

theorem getPercent_clamp_witness:
  "jge (Fin 30) (Fin 0) \<and> jlt (Fin 0) (Fin 120)
   \<and> getPercent (SeekBar_new (player_state (Fin 30) (Fin 0) (Fin 120) False False)) = Fin (1 / 4)
   \<and> clamp (jdiv (Fin 30) (Fin 120)) (Fin 0) (Fin 1) = Fin (1 / 4)
   \<and> jge (Fin 150) (Fin 0)
   \<and> getPercent (SeekBar_new (player_state (Fin 5) (Fin 150) (Fin 120) True False)) = Fin 1
   \<and> jlt (Fin 0) PInf
   \<and> getPercent (SeekBar_new (player_state (Fin 30) (Fin 0) PInf False False)) = Fin 0"
proof -
  have t30: "jge (Fin 30) (Fin 0)" and t150: "jge (Fin 150) (Fin 0)"
    and d120: "jlt (Fin 0) (Fin 120)" and dinf: "jlt (Fin 0) PInf"
    by (simp_all add: jlt_def)
  have a: "getPercent (SeekBar_new (player_state (Fin 30) (Fin 0) (Fin 120) False False)) =
             clamp (jdiv (Fin 30) (Fin 120)) (Fin 0) (Fin 1)"
    using getPercent_clamp [of "Fin 30"
        "SeekBar_new (player_state (Fin 30) (Fin 0) (Fin 120) False False)" "Fin 120"]
      t30 d120
    by (simp add: example_defs)
  have b: "getPercent (SeekBar_new (player_state (Fin 5) (Fin 150) (Fin 120) True False)) =
             clamp (jdiv (Fin 150) (Fin 120)) (Fin 0) (Fin 1)"
    using getPercent_clamp [of "Fin 150"
        "SeekBar_new (player_state (Fin 5) (Fin 150) (Fin 120) True False)" "Fin 120"]
      t150 d120
    by (simp add: example_defs)
  have c: "getPercent (SeekBar_new (player_state (Fin 30) (Fin 0) PInf False False)) =
             clamp (jdiv (Fin 30) PInf) (Fin 0) (Fin 1)"
    using getPercent_clamp [of "Fin 30"
        "SeekBar_new (player_state (Fin 30) (Fin 0) PInf False False)" PInf]
      t30 dinf
    by (simp add: example_defs)
  show ?thesis
    using a b c t30 t150 d120 dinf
    by (simp add: jdiv_Fin jdiv_def signed_zero_def clamp_def)
qed

text \<open>
  C8: the display time that the percent and the accessible text are computed from is the
  cached current time while the player is scrubbing, and the player's live current time
  otherwise.
\<close>

theorem display_time_source:
  "(scrubbing_get (sb_player this) \<longrightarrow>
      getPercent this =
        (if jge (jdiv (c_currentTime (getCache (sb_player this))) (duration (sb_player this))) (Fin 1)
         then Fin 1
         else jdiv (c_currentTime (getCache (sb_player this))) (duration (sb_player this)))
      \<and> aria_valuetext (snd (update this)) =
          Some (FormatTime (c_currentTime (getCache (sb_player this))) (duration (sb_player this))))
   \<and> (\<not> scrubbing_get (sb_player this) \<longrightarrow>
      getPercent this =
        (if jge (jdiv (currentTime_get (sb_player this)) (duration (sb_player this))) (Fin 1)
         then Fin 1
         else jdiv (currentTime_get (sb_player this)) (duration (sb_player this)))
      \<and> aria_valuetext (snd (update this)) =
          Some (FormatTime (currentTime_get (sb_player this)) (duration (sb_player this))))"
  by (simp add: getPercent_def update_def Let_def)

theorem display_time_source_witness:
  "scrubbing_get (sb_player (SeekBar_new (player_state (Fin 10) (Fin 60) (Fin 120) True True)))
   \<and> getPercent (SeekBar_new (player_state (Fin 10) (Fin 60) (Fin 120) True True)) = Fin (1 / 2)
   \<and> aria_valuetext (snd (update (SeekBar_new (player_state (Fin 10) (Fin 60) (Fin 120) True True))))
       = Some (FormatTime (Fin 60) (Fin 120))
   \<and> scrubbing_get (sb_player (SeekBar_new (player_state (Fin 10) (Fin 60) (Fin 120) False True))) = False
   \<and> getPercent (SeekBar_new (player_state (Fin 10) (Fin 60) (Fin 120) False True)) = Fin (1 / 12)
   \<and> aria_valuetext (snd (update (SeekBar_new (player_state (Fin 10) (Fin 60) (Fin 120) False True))))
       = Some (FormatTime (Fin 10) (Fin 120))"
  using
    display_time_source [of "SeekBar_new (player_state (Fin 10) (Fin 60) (Fin 120) True True)"]
    display_time_source [of "SeekBar_new (player_state (Fin 10) (Fin 60) (Fin 120) False True)"]
  by (simp add: example_defs jdiv_Fin)

section \<open>The scrub session\<close>

text \<open>A drag issues one seek.\<close>

lemma calls_handleMouseMove:
  "p_calls (sb_player (handleMouseMove e this)) =
     p_calls (sb_player this) @
       [SeekTo (if jeq (jmul (calculateDistance e) (duration (sb_player this)))
                       (duration (sb_player this))
                then jsub (jmul (calculateDistance e) (duration (sb_player this))) (Fin 0.1)
                else jmul (calculateDistance e) (duration (sb_player this)))]"
  by (simp add: handleMouseMove_def Let_def currentTime_set_def)

text \<open>
  C5: a drag seeks to \<open>ratio * duration()\<close>, and to that product less 0.1 when the
  product equals the duration; with the ratio 1 and the duration 100 it seeks to 99.9.
\<close>

theorem handleMouseMove_target:
  "p_calls (sb_player (handleMouseMove e this)) =
     p_calls (sb_player this) @
       [SeekTo (if jeq (jmul (calculateDistance e) (duration (sb_player this)))
                       (duration (sb_player this))
                then jsub (jmul (calculateDistance e) (duration (sb_player this))) (Fin 0.1)
                else jmul (calculateDistance e) (duration (sb_player this)))]
   \<and> (calculateDistance e = Fin 1 \<and> duration (sb_player this) = Fin 100 \<longrightarrow>
        p_calls (sb_player (handleMouseMove e this)) =
          p_calls (sb_player this) @ [SeekTo (Fin 99.9)])"
proof -
  have "jmul (Fin 1) (Fin 100) = Fin 100"
    by (simp add: jmul_def)
  moreover have "jsub (Fin 100) (Fin 0.1) = Fin 99.9"
    by (simp add: jsub_def jadd_def)
  ultimately show ?thesis
    by (simp add: calls_handleMouseMove)
qed

theorem handleMouseMove_target_witness:
  "calculateDistance \<lparr>ratio = Fin 1\<rparr> = Fin 1
   \<and> duration (sb_player (SeekBar_new (player_state (Fin 30) (Fin 30) (Fin 100) True True))) = Fin 100
   \<and> p_calls (sb_player (handleMouseMove \<lparr>ratio = Fin 1\<rparr>
        (SeekBar_new (player_state (Fin 30) (Fin 30) (Fin 100) True True)))) = [SeekTo (Fin 99.9)]
   \<and> p_calls (sb_player (handleMouseMove \<lparr>ratio = Fin (1 / 2)\<rparr>
        (SeekBar_new (player_state (Fin 30) (Fin 30) (Fin 100) True True)))) = [SeekTo (Fin 50)]"
  using
    handleMouseMove_target [of "\<lparr>ratio = Fin 1\<rparr>"
      "SeekBar_new (player_state (Fin 30) (Fin 30) (Fin 100) True True)"]
    handleMouseMove_target [of "\<lparr>ratio = Fin (1 / 2)\<rparr>"
      "SeekBar_new (player_state (Fin 30) (Fin 30) (Fin 100) True True)"]
  by (simp add: example_defs calculateDistance_def jmul_def jsub_def jadd_def)

text \<open>
  C10: when the duration is exactly 0, a drag at any ratio in \<open>[0, 1]\<close> seeks to -0.1:
  the product is a zero, it equals the duration, and 0.1 is subtracted.
\<close>

theorem handleMouseMove_zero_duration:
  assumes "is_zero (duration (sb_player this))"
      and "jle (Fin 0) (calculateDistance e)" "jle (calculateDistance e) (Fin 1)"
  shows "p_calls (sb_player (handleMouseMove e this)) =
           p_calls (sb_player this) @ [SeekTo (Fin (- 0.1))]"
proof -
  have z: "is_zero (jmul (calculateDistance e) (duration (sb_player this)))"
    using assms(2,3,1) by (rule jmul_ratio_zero)
  show ?thesis
    by (simp add: calls_handleMouseMove jeq_zeros [OF z assms(1)] jsub_zero_tenth [OF z])
qed

theorem handleMouseMove_zero_duration_witness:
  "is_zero (duration (sb_player (SeekBar_new (player_state (Fin 0) (Fin 0) (Fin 0) True True))))
   \<and> jle (Fin 0) (calculateDistance \<lparr>ratio = Fin (3 / 4)\<rparr>)
   \<and> jle (calculateDistance \<lparr>ratio = Fin (3 / 4)\<rparr>) (Fin 1)
   \<and> p_calls (sb_player (handleMouseMove \<lparr>ratio = Fin (3 / 4)\<rparr>
        (SeekBar_new (player_state (Fin 0) (Fin 0) (Fin 0) True True)))) = [SeekTo (Fin (- 0.1))]"
proof -
  have h1: "is_zero (duration (sb_player (SeekBar_new (player_state (Fin 0) (Fin 0) (Fin 0) True True))))"
    by (simp add: example_defs)
  have h2: "jle (Fin 0) (calculateDistance \<lparr>ratio = Fin (3 / 4)\<rparr>)"
    by (simp add: calculateDistance_def)
  have h3: "jle (calculateDistance \<lparr>ratio = Fin (3 / 4)\<rparr>) (Fin 1)"
    by (simp add: calculateDistance_def)
  show ?thesis
    using h1 h2 h3 handleMouseMove_zero_duration [OF h1 h2 h3]
    by (simp add: example_defs)
qed

text \<open>
  C6: a mouse down immediately followed by a mouse up, with no drag in between, leaves
  \<open>paused()\<close> as it was before the mouse down and leaves \<open>scrubbing()\<close> false.
\<close>

theorem mouseDown_mouseUp_restores:
  "paused (sb_player (handleMouseUp e2 (handleMouseDown e1 this))) = paused (sb_player this)
   \<and> scrubbing_get (sb_player (handleMouseUp e2 (handleMouseDown e1 this))) = False"
  by (simp add: handleMouseUp_def handleMouseDown_def Slider_handleMouseUp_def
      Slider_handleMouseDown_def Let_def paused_def pause_def play_def scrubbing_get_def
      scrubbing_set_def)

theorem mouseDown_mouseUp_restores_witness:
  "paused (sb_player (handleMouseUp \<lparr>ratio = Fin (1 / 2)\<rparr> (handleMouseDown \<lparr>ratio = Fin (1 / 2)\<rparr>
      (SeekBar_new (player_state (Fin 30) (Fin 30) (Fin 120) False False))))) = False
   \<and> paused (sb_player (handleMouseUp \<lparr>ratio = Fin (1 / 2)\<rparr> (handleMouseDown \<lparr>ratio = Fin (1 / 2)\<rparr>
      (SeekBar_new (player_state (Fin 30) (Fin 30) (Fin 120) False True))))) = True
   \<and> scrubbing_get (sb_player (handleMouseUp \<lparr>ratio = Fin (1 / 2)\<rparr> (handleMouseDown \<lparr>ratio = Fin (1 / 2)\<rparr>
      (SeekBar_new (player_state (Fin 30) (Fin 30) (Fin 120) False False))))) = False"
  using
    mouseDown_mouseUp_restores [of "\<lparr>ratio = Fin (1 / 2)\<rparr>" "\<lparr>ratio = Fin (1 / 2)\<rparr>"
      "SeekBar_new (player_state (Fin 30) (Fin 30) (Fin 120) False False)"]
    mouseDown_mouseUp_restores [of "\<lparr>ratio = Fin (1 / 2)\<rparr>" "\<lparr>ratio = Fin (1 / 2)\<rparr>"
      "SeekBar_new (player_state (Fin 30) (Fin 30) (Fin 120) False True)"]
  by (simp add: SeekBar_new_def player_state_def paused_def)

lemmas handler_defs =
  handleMouseUp_def handleMouseDown_def handleMouseMove_def stepForward_def stepBack_def
  update_def Slider_handleMouseUp_def Slider_handleMouseDown_def Let_def

lemmas player_defs =
  paused_def pause_def play_def scrubbing_get_def scrubbing_set_def currentTime_set_def




text \<open>Every operation but the mouse up keeps the flag and calls no \<open>scrubbing(false)\<close>.\<close>

lemma apply_op_keeps_scrubbing:
  assumes "\<not> is_mouse_up x" "scrubbing_get (sb_player this)"
  shows "scrubbing_get (sb_player (apply_op x this))"
  using assms by (cases x) (simp_all add: handler_defs player_defs)

lemma apply_op_unscrub_calls:
  assumes "\<not> is_mouse_up x"
  shows "unscrub_calls (apply_op x this) = unscrub_calls this"
  using assms by (cases x) (simp_all add: handler_defs player_defs unscrub_calls_def)

lemma run_keeps_scrubbing:
  assumes "\<forall>x \<in> set ops. \<not> is_mouse_up x" "scrubbing_get (sb_player this)"
  shows "scrubbing_get (sb_player (run ops this))
       \<and> unscrub_calls (run ops this) = unscrub_calls this"
  using assms
proof (induction ops arbitrary: this)
  case Nil
  then show ?case by simp
next
  case (Cons x xs)
  then show ?case
    by (simp add: apply_op_keeps_scrubbing apply_op_unscrub_calls)
qed

text \<open>
  C7: the mouse down sets the scrubbing flag; after any run of operations that has no
  mouse up in it (drags, updates, reads of the percent, key steps, further mouse downs)
  the flag is still true and the player has received no \<open>scrubbing(false)\<close>; the mouse
  up clears the flag, with the one \<open>scrubbing(false)\<close> call.
\<close>

theorem scrubbing_held_until_mouseUp:
  assumes "\<forall>x \<in> set ops. \<not> is_mouse_up x"
  shows "scrubbing_get (sb_player (handleMouseDown e this)) = True
       \<and> scrubbing_get (sb_player (run ops (handleMouseDown e this))) = True
       \<and> unscrub_calls (run ops (handleMouseDown e this)) = unscrub_calls this
       \<and> scrubbing_get (sb_player (handleMouseUp e' (run ops (handleMouseDown e this)))) = False
       \<and> unscrub_calls (handleMouseUp e' (run ops (handleMouseDown e this))) =
           unscrub_calls this + 1"
proof -
  have d: "scrubbing_get (sb_player (handleMouseDown e this))"
    by (simp add: handler_defs player_defs)
  have u: "unscrub_calls (handleMouseDown e this) = unscrub_calls this"
    by (simp add: handler_defs player_defs unscrub_calls_def)
  have up: "scrubbing_get (sb_player (handleMouseUp e' s)) = False
     \<and> unscrub_calls (handleMouseUp e' s) = unscrub_calls s + 1" for s
    by (simp add: handler_defs player_defs unscrub_calls_def)
  from run_keeps_scrubbing [OF assms d] u up d show ?thesis by simp
qed

theorem scrubbing_held_until_mouseUp_witness:
  "is_mouse_up (MouseMove \<lparr>ratio = Fin (1 / 2)\<rparr>) = False
   \<and> is_mouse_up Update = False \<and> is_mouse_up StepForward = False
   \<and> scrubbing_get (sb_player (run [MouseMove \<lparr>ratio = Fin (1 / 2)\<rparr>, Update, StepForward]
        (handleMouseDown \<lparr>ratio = Fin (1 / 4)\<rparr>
          (SeekBar_new (player_state (Fin 30) (Fin 30) (Fin 120) False False))))) = True
   \<and> p_currentTime (sb_player (run [MouseMove \<lparr>ratio = Fin (1 / 2)\<rparr>, Update, StepForward]
        (handleMouseDown \<lparr>ratio = Fin (1 / 4)\<rparr>
          (SeekBar_new (player_state (Fin 30) (Fin 30) (Fin 120) False False))))) = Fin 65
   \<and> scrubbing_get (sb_player (handleMouseUp \<lparr>ratio = Fin (1 / 2)\<rparr>
        (run [MouseMove \<lparr>ratio = Fin (1 / 2)\<rparr>, Update, StepForward]
          (handleMouseDown \<lparr>ratio = Fin (1 / 4)\<rparr>
            (SeekBar_new (player_state (Fin 30) (Fin 30) (Fin 120) False False)))))) = False"
proof -
  have h: "\<forall>x \<in> set [MouseMove \<lparr>ratio = Fin (1 / 2)\<rparr>, Update, StepForward]. \<not> is_mouse_up x"
    by simp
  have t: "p_currentTime (sb_player (run [MouseMove \<lparr>ratio = Fin (1 / 2)\<rparr>, Update, StepForward]
        (handleMouseDown \<lparr>ratio = Fin (1 / 4)\<rparr>
          (SeekBar_new (player_state (Fin 30) (Fin 30) (Fin 120) False False))))) = Fin 65"
    by (simp add: handler_defs player_defs SeekBar_new_def player_state_def
        calculateDistance_def duration_def currentTime_get_def STEP_SECONDS_def
        jmul_def jadd_def clamp_def)
  show ?thesis
    using t scrubbing_held_until_mouseUp [OF h, of "\<lparr>ratio = Fin (1 / 4)\<rparr>"
      "SeekBar_new (player_state (Fin 30) (Fin 30) (Fin 120) False False)"
      "\<lparr>ratio = Fin (1 / 2)\<rparr>"]
    by simp
qed

section \<open>The key steps\<close>

lemma jadd5: "jle (Fin 0) t \<Longrightarrow> t \<noteq> PInf \<Longrightarrow> jadd t (Fin 5) = Fin (rv t + 5)"
  by (cases t) (auto simp: jadd_def jle_def jge_def jlt_def jeq_def)

lemma jsub5: "jsub (Fin (x + 5)) (Fin 5) = Fin x"
  by (simp add: jsub_def jadd_def signed_zero_def)

lemma jeq_rv: "jle (Fin 0) t \<Longrightarrow> t \<noteq> PInf \<Longrightarrow> jeq (Fin (rv t)) t"
  by (cases t) (auto simp: jle_def jge_def jlt_def jeq_def)

lemma rv_nonneg: "jle (Fin 0) t \<Longrightarrow> t \<noteq> PInf \<Longrightarrow> 0 \<le> rv t"
  by (cases t) (auto simp: jle_def jge_def jlt_def jeq_def)

text \<open>A target in range is applied as it is.\<close>

lemma in_range_clamp: "jle (Fin 0) x \<Longrightarrow> jle x d \<Longrightarrow> clamp x (Fin 0) d = x"
  by (cases x; cases d) (auto simp: clamp_def jle_def jge_def jlt_def jeq_def)

lemma jle_sub5:
  assumes "jle (Fin 0) t" "t \<noteq> PInf" "jle t (jsub d (Fin 5))"
  shows "jle (Fin (rv t + 5)) d \<and> jle (Fin (rv t)) d"
  using assms
  by (cases t; cases d)
    (auto simp: jsub_def jadd_def jle_def jge_def jlt_def jeq_def signed_zero_def
      split: if_splits)

lemma jle_PInf_sub5: "jle PInf (jsub d (Fin 5)) \<Longrightarrow> d = PInf"
  by (cases d)
    (auto simp: jsub_def jadd_def jle_def jge_def jlt_def jeq_def signed_zero_def
      split: if_splits)

lemma calls_steps:
  "p_calls (sb_player (stepForward this)) =
     p_calls (sb_player this) @ [SeekTo (jadd (currentTime_get (sb_player this)) (Fin 5))]"
  "p_calls (sb_player (stepBack this)) =
     p_calls (sb_player this) @ [SeekTo (jsub (currentTime_get (sb_player this)) (Fin 5))]"
  by (simp_all add: stepForward_def stepBack_def currentTime_set_def STEP_SECONDS_def)

lemma time_steps:
  "currentTime_get (sb_player (stepForward this)) =
     clamp (jadd (currentTime_get (sb_player this)) (Fin 5)) (Fin 0) (duration (sb_player this))"
  "currentTime_get (sb_player (stepBack this)) =
     clamp (jsub (currentTime_get (sb_player this)) (Fin 5)) (Fin 0) (duration (sb_player this))"
  "duration (sb_player (stepForward this)) = duration (sb_player this)"
  by (simp_all add: stepForward_def stepBack_def currentTime_set_def STEP_SECONDS_def
      currentTime_get_def duration_def)

lemma step_roundtrip_time:
  assumes "t = currentTime_get (sb_player this)" "d = duration (sb_player this)"
      and "jle (Fin 0) t" "jle t (jsub d (Fin 5))"
  shows "jeq (currentTime_get (sb_player (stepBack (stepForward this)))) t"
proof (cases "t = PInf")
  case True
  with assms(4) have "d = PInf" by (simp add: jle_PInf_sub5)
  with True assms(1,2) show ?thesis
    by (simp add: time_steps jadd_def jsub_def clamp_def jlt_def jeq_def)
next
  case False
  note r = jle_sub5 [OF assms(3) False assms(4)]
  note nn = rv_nonneg [OF assms(3) False]
  have "currentTime_get (sb_player (stepForward this)) = clamp (jadd t (Fin 5)) (Fin 0) d"
    by (simp add: time_steps assms(1,2))
  also have "\<dots> = clamp (Fin (rv t + 5)) (Fin 0) d"
    by (simp add: jadd5 [OF assms(3) False])
  also have "\<dots> = Fin (rv t + 5)"
    using r nn by (intro in_range_clamp) simp_all
  finally have f: "currentTime_get (sb_player (stepForward this)) = Fin (rv t + 5)" .
  have "currentTime_get (sb_player (stepBack (stepForward this))) =
          clamp (jsub (Fin (rv t + 5)) (Fin 5)) (Fin 0) d"
    by (simp add: time_steps(2,3) f assms(2))
  also have "\<dots> = clamp (Fin (rv t)) (Fin 0) d"
    by (simp add: jsub5)
  also have "\<dots> = Fin (rv t)"
    using r nn by (intro in_range_clamp) simp_all
  finally have b: "currentTime_get (sb_player (stepBack (stepForward this))) = Fin (rv t)" .
  show ?thesis using b jeq_rv [OF assms(3) False] by simp
qed

text \<open>
  C9: \<open>stepForward\<close> seeks to \<open>currentTime() + 5\<close> and \<open>stepBack\<close> to
  \<open>currentTime() - 5\<close>; from a time \<open>t\<close> with \<open>0 \<le> t \<le> duration - 5\<close>, a step forward
  followed by a step back returns the clock to \<open>t\<close>, the clock applying seeks in range
  exactly. Sums and differences are exact here, so the return is to \<open>t\<close> itself (as
  \<open>===\<close> compares).
\<close>

theorem step_forward_back:
  "p_calls (sb_player (stepForward this)) =
     p_calls (sb_player this) @ [SeekTo (jadd (currentTime_get (sb_player this)) (Fin 5))]
   \<and> p_calls (sb_player (stepBack this)) =
       p_calls (sb_player this) @ [SeekTo (jsub (currentTime_get (sb_player this)) (Fin 5))]
   \<and> (jle (Fin 0) (currentTime_get (sb_player this))
        \<and> jle (currentTime_get (sb_player this)) (jsub (duration (sb_player this)) (Fin 5)) \<longrightarrow>
        jeq (currentTime_get (sb_player (stepBack (stepForward this))))
            (currentTime_get (sb_player this)))"
  using step_roundtrip_time [OF refl refl, of this] by (simp add: calls_steps)

theorem step_forward_back_witness:
  "jle (Fin 0) (Fin 30) \<and> jle (Fin 30) (jsub (Fin 120) (Fin 5))
   \<and> p_calls (sb_player (stepBack (stepForward
        (SeekBar_new (player_state (Fin 30) (Fin 30) (Fin 120) False False))))) =
       [SeekTo (Fin 35), SeekTo (Fin 30)]
   \<and> jeq (currentTime_get (sb_player (stepBack (stepForward
        (SeekBar_new (player_state (Fin 30) (Fin 30) (Fin 120) False False)))))) (Fin 30)"
proof -
  have c: "p_calls (sb_player (stepBack (stepForward
        (SeekBar_new (player_state (Fin 30) (Fin 30) (Fin 120) False False))))) =
       [SeekTo (Fin 35), SeekTo (Fin 30)]"
    by (simp add: stepForward_def stepBack_def currentTime_set_def STEP_SECONDS_def
        currentTime_get_def SeekBar_new_def player_state_def jadd_def jsub_def clamp_def)
  have s: "jsub (Fin 120) (Fin 5) = Fin 115"
    by (simp add: jsub_def jadd_def)
  show ?thesis
    using c s step_forward_back
      [of "SeekBar_new (player_state (Fin 30) (Fin 30) (Fin 120) False False)"]
    by (simp add: currentTime_get_def duration_def SeekBar_new_def player_state_def)
qed

section \<open>The notifications of one window\<close>

lemma update_player [simp]: "sb_player (snd (update this)) = sb_player this"
  by (simp add: update_def Let_def)

lemma immediate_simps [simp]:
  "immediate [] = []"
  "immediate ((t, ev, p) # ns) = (if ev = playerEvent then [(t, p)] else []) @ immediate ns"
  by (simp_all add: immediate_def)











end
